theory Spec2Isabelle
  imports Complex_Main
begin

section \<open>Python values, exceptions and the outside world\<close>

text \<open>
  The two source files are \<^verbatim>\<open>src/utils/stp_bridge.py\<close> (the STP bridge) and
  \<^verbatim>\<open>src/routes/normalization.py\<close> (the normalization routes). Both build and return
  Python dictionaries of type \<^verbatim>\<open>Dict[str, Any]\<close>, so the values of the model are the
  Python values that JSON produces. A dictionary is the list of its items in insertion
  order (its keys are distinct). The type \<open>'f\<close> stands for Python's \<^verbatim>\<open>float\<close>: no
  property of floating-point arithmetic is assumed, its operations are fields of the
  world below.
\<close>

datatype 'f py =
    PyNone
  | PyBool bool
  | PyInt int
  | PyFloat 'f
  | PyStr string
  | PyList "'f py list"
  | PyDict "(string \<times> 'f py) list"

text \<open>
  Exceptions are values. Every exception of the model is an instance of Python's
  \<^verbatim>\<open>Exception\<close>, the class that the \<^verbatim>\<open>except Exception\<close> clauses of the source
  catch: \<open>Exception msg\<close> is \<^verbatim>\<open>Exception(msg)\<close> itself, \<open>HTTPException code detail\<close> is
  fastapi's \<^verbatim>\<open>HTTPException(status_code=code, detail=detail)\<close>, and \<open>Error cls msg\<close> is an
  instance of any other subclass \<open>cls\<close> whose \<^verbatim>\<open>str\<close> is \<open>msg\<close> (a connection error or a
  timeout of \<^verbatim>\<open>requests\<close>, a JSON decoding error, an \<^verbatim>\<open>AttributeError\<close>, ...).
\<close>

datatype exn =
    Exception string
  | HTTPException int string
  | Error string string

text \<open>What \<^verbatim>\<open>requests.post\<close> returns: the fields of the response the source reads.
  \<open>json\<close> is the outcome of \<^verbatim>\<open>response.json()\<close>, which raises on a body that is not
  JSON; \<open>elapsed\<close> is \<^verbatim>\<open>response.elapsed.total_seconds()\<close>.\<close>

record 'f response =
  status_code :: int
  content :: string
  json :: "exn + 'f py"
  elapsed :: 'f

text \<open>One call of \<^verbatim>\<open>requests.post(url, json=..., timeout=...)\<close>, as a call counter
  records it.\<close>

record 'f post_call =
  p_url :: string
  p_json :: "'f py"
  p_timeout :: int

text \<open>
  Everything outside the two source files is the world: the float arithmetic of the
  interpreter, the \<^verbatim>\<open>__str__\<close> of the installed \<^verbatim>\<open>HTTPException\<close>, the UUID generator,
  the clock, the network, the file \<^verbatim>\<open>context_weights.json\<close> and the collection
  \<^verbatim>\<open>karma_events_col\<close>. A source of fresh values is a function of the number of calls
  made so far together with that number, so that each call sees the next value and
  the calls are counted.
\<close>

record 'f world =
  fmul :: "'f \<Rightarrow> 'f \<Rightarrow> 'f"
  float_of_int :: "int \<Rightarrow> exn + 'f"
  float_of_decimal :: "rat \<Rightarrow> 'f"
  str_HTTPException :: "int \<Rightarrow> string \<Rightarrow> string"
  uuid4 :: "nat \<Rightarrow> string"
  n_uuid4 :: nat
  utcnow :: "nat \<Rightarrow> string"
  n_utcnow :: nat
  post_result :: "nat \<Rightarrow> exn + 'f response"
  posts :: "'f post_call list"
  weights_file :: "nat \<Rightarrow> exn + 'f py"
  n_loads :: nat
  insert_result :: "nat \<Rightarrow> exn option"
  n_inserts :: nat
  karma_events_col :: "'f py list"

text \<open>\<^verbatim>\<open>str(uuid.uuid4())\<close>\<close>

definition uuid4_str :: "'f world \<Rightarrow> string \<times> 'f world" where
  "uuid4_str w = (uuid4 w (n_uuid4 w), w\<lparr>n_uuid4 := Suc (n_uuid4 w)\<rparr>)"

text \<open>\<^verbatim>\<open>datetime.utcnow()\<close>, also with \<^verbatim>\<open>.isoformat()\<close>: the reading of the clock is
  kept as the string that stands for it.\<close>

definition utcnow_isoformat :: "'f world \<Rightarrow> string \<times> 'f world" where
  "utcnow_isoformat w = (utcnow w (n_utcnow w), w\<lparr>n_utcnow := Suc (n_utcnow w)\<rparr>)"

text \<open>\<^verbatim>\<open>requests.post\<close>: the call is recorded, and its outcome (a response, or the
  exception it raises) is the one the network holds for the call of this number.\<close>

definition requests_post ::
  "string \<Rightarrow> 'f py \<Rightarrow> int \<Rightarrow> 'f world \<Rightarrow> (exn + 'f response) \<times> 'f world" where
  "requests_post u payload t w =
     (post_result w (length (posts w)),
      w\<lparr>posts := posts w @ [\<lparr>p_url = u, p_json = payload, p_timeout = t\<rparr>]\<rparr>)"

text \<open>\<^verbatim>\<open>d.get(k, default)\<close> and \<^verbatim>\<open>d[k]\<close> on a dictionary.\<close>

definition dict_get :: "(string \<times> 'v) list \<Rightarrow> string \<Rightarrow> 'v \<Rightarrow> 'v" where
  "dict_get d k dflt = (case map_of d k of Some v \<Rightarrow> v | None \<Rightarrow> dflt)"

definition dict_item :: "(string \<times> 'v) list \<Rightarrow> string \<Rightarrow> exn + 'v" where
  "dict_item d k = (case map_of d k of Some v \<Rightarrow> Inr v | None \<Rightarrow> Inl (Error ''KeyError'' k))"

text \<open>\<^verbatim>\<open>str(i)\<close> for an integer (the f-strings of the source format status codes).\<close>

fun str_nat :: "nat \<Rightarrow> string" where
  "str_nat n =
     (if n < 10 then [''0123456789'' ! n]
      else str_nat (n div 10) @ [''0123456789'' ! (n mod 10)])"

declare str_nat.simps [simp del]

definition str_int :: "int \<Rightarrow> string" where
  "str_int i = (if i < 0 then CHR ''-'' # str_nat (nat (- i)) else str_nat (nat i))"

text \<open>\<^verbatim>\<open>str(e)\<close> for an exception.\<close>

definition str_exn :: "'f world \<Rightarrow> exn \<Rightarrow> string" where
  "str_exn w e =
     (case e of
        Exception msg \<Rightarrow> msg
      | HTTPException code detail \<Rightarrow> str_HTTPException w code detail
      | Error cls msg \<Rightarrow> msg)"

section \<open>The STP bridge (\<^verbatim>\<open>src/utils/stp_bridge.py\<close>)\<close>

text \<open>The attributes of an \<^verbatim>\<open>STPBridge\<close>, and the configuration its constructor reads
  (a missing key is \<open>None\<close>).\<close>

record bridge =
  insightflow_endpoint :: string
  retry_attempts :: int
  timeout :: int
  enabled :: bool

record config =
  cfg_insightflow_endpoint :: "string option"
  cfg_retry_attempts :: "int option"
  cfg_timeout :: "int option"
  cfg_enabled :: "bool option"

definition config_get :: "'a option \<Rightarrow> 'a \<Rightarrow> 'a" where
  "config_get v dflt = (case v of Some x \<Rightarrow> x | None \<Rightarrow> dflt)"

text \<open>\<^verbatim>\<open>STPBridge.__init__\<close>; \<open>None\<close> is the call without a configuration.\<close>

definition STPBridge :: "config option \<Rightarrow> bridge" where
  "STPBridge cfg =
     (let c = (case cfg of
                 Some c \<Rightarrow> c
               | None \<Rightarrow> \<lparr>cfg_insightflow_endpoint = None, cfg_retry_attempts = None,
                           cfg_timeout = None, cfg_enabled = None\<rparr>)
      in \<lparr>insightflow_endpoint =
             config_get (cfg_insightflow_endpoint c)
               ''http://localhost:8001/api/v1/insightflow/receive'',
          retry_attempts = config_get (cfg_retry_attempts c) 3,
          timeout = config_get (cfg_timeout c) 10,
          enabled = config_get (cfg_enabled c) True\<rparr>)"

text \<open>\<^verbatim>\<open>response.json() if response.content else {}\<close>\<close>

definition body_json :: "'f response \<Rightarrow> exn + 'f py" where
  "body_json response =
     (if content response \<noteq> [] then json response else Inr (PyDict []))"

text \<open>
  The loop of \<^verbatim>\<open>STPBridge._send_with_retry\<close> over the attempts that remain, with the
  current \<^verbatim>\<open>last_exception\<close>. Leaving the loop raises \<^verbatim>\<open>last_exception\<close> (\<open>Inl\<close>). In
  the body, an exception of \<^verbatim>\<open>requests.post\<close> or of \<^verbatim>\<open>response.json()\<close> is caught
  and becomes \<^verbatim>\<open>last_exception\<close>; the body is parsed before the status code is
  looked at. The calls of the logger change nothing that is returned and are left out.
\<close>

fun send_loop ::
  "bridge \<Rightarrow> 'f py \<Rightarrow> int list \<Rightarrow> exn \<Rightarrow> 'f world \<Rightarrow> (exn + 'f py) \<times> 'f world" where
  "send_loop self payload [] last_exception w = (Inl last_exception, w)"
| "send_loop self payload (attempt # rest) last_exception w =
     (case requests_post (insightflow_endpoint self) payload (timeout self) w of
        (Inl e, w1) \<Rightarrow> send_loop self payload rest e w1
      | (Inr response, w1) \<Rightarrow>
          (case body_json response of
             Inl e \<Rightarrow> send_loop self payload rest e w1
           | Inr response_data \<Rightarrow>
               if status_code response \<in> {200, 201} then
                 (Inr (PyDict [(''status_code'', PyInt (status_code response)),
                               (''response'', response_data),
                               (''attempt'', PyInt (attempt + 1))]), w1)
               else
                 send_loop self payload rest
                   (HTTPException (status_code response)
                      (''InsightFlow returned status '' @ str_int (status_code response)))
                   w1))"

text \<open>\<^verbatim>\<open>STPBridge._send_with_retry\<close>: \<^verbatim>\<open>range(self.retry_attempts)\<close> is the list
  \<open>[0..retry_attempts self - 1]\<close>, empty when \<open>retry_attempts self \<le> 0\<close>.\<close>

definition send_with_retry ::
  "bridge \<Rightarrow> 'f py \<Rightarrow> 'f world \<Rightarrow> (exn + 'f py) \<times> 'f world" where
  "send_with_retry self payload w =
     send_loop self payload [0..retry_attempts self - 1] (Exception ''Unknown error'') w"

text \<open>
  \<^verbatim>\<open>STPBridge.forward_signal\<close>. The default of \<^verbatim>\<open>signal.get\<close> is evaluated before the
  lookup, so a UUID is drawn in any case. The outer \<open>case\<close> is the \<^verbatim>\<open>try\<close>/\<^verbatim>\<open>except\<close>
  of the source. The result is \<open>Inr\<close> of the dictionary returned, or \<open>Inl\<close> of an
  exception that reaches the caller.
\<close>

definition forward_signal ::
  "bridge \<Rightarrow> (string \<times> 'f py) list \<Rightarrow> 'f world \<Rightarrow> (exn + 'f py) \<times> 'f world" where
  "forward_signal self signal w =
     (if \<not> enabled self then
        (case utcnow_isoformat w of
           (ts, w1) \<Rightarrow>
             (Inr (PyDict [(''status'', PyStr ''skipped''),
                           (''message'', PyStr ''STP bridge is disabled''),
                           (''timestamp'', PyStr ts)]), w1))
      else
        (case uuid4_str w of
           (u, w1) \<Rightarrow>
             let signal_id = dict_get signal ''signal_id'' (PyStr u) in
             (case
                (case uuid4_str w1 of
                   (tid, w2) \<Rightarrow>
                     (case utcnow_isoformat w2 of
                        (ts, w3) \<Rightarrow>
                          let payload = [(''transmission_id'', PyStr tid),
                                         (''source'', PyStr ''karmachain_feedback_engine''),
                                         (''signal'', PyDict signal),
                                         (''timestamp'', PyStr ts)] in
                          (case send_with_retry self (PyDict payload) w3 of
                             (Inl e, w4) \<Rightarrow> (Inl e, w4)
                           | (Inr response, w4) \<Rightarrow>
                               (case dict_item payload ''transmission_id'' of
                                  Inl e \<Rightarrow> (Inl e, w4)
                                | Inr transmission_id \<Rightarrow>
                                    (case utcnow_isoformat w4 of
                                       (ts', w5) \<Rightarrow>
                                         (Inr (PyDict [(''status'', PyStr ''success''),
                                                       (''signal_id'', signal_id),
                                                       (''transmission_id'', transmission_id),
                                                       (''response'', response),
                                                       (''timestamp'', PyStr ts')]), w5))))))
              of
                (Inr result, w') \<Rightarrow> (Inr result, w')
              | (Inl e, w') \<Rightarrow>
                  (case utcnow_isoformat w' of
                     (ts, w'') \<Rightarrow>
                       (Inr (PyDict [(''status'', PyStr ''error''),
                                     (''signal_id'', signal_id),
                                     (''error'', PyStr (str_exn w' e)),
                                     (''timestamp'', PyStr ts)]), w'')))))"

text \<open>\<^verbatim>\<open>STPBridge.health_check\<close>: one \<^verbatim>\<open>requests.post\<close> inside a
  \<^verbatim>\<open>try\<close>/\<^verbatim>\<open>except\<close>, no loop.\<close>

definition health_check :: "bridge \<Rightarrow> 'f world \<Rightarrow> (exn + 'f py) \<times> 'f world" where
  "health_check self w =
     (case uuid4_str w of
        (tid, w1) \<Rightarrow>
          (case utcnow_isoformat w1 of
             (ts, w2) \<Rightarrow>
               let health_payload = [(''transmission_id'', PyStr tid),
                                     (''source'', PyStr ''karmachain_feedback_engine''),
                                     (''type'', PyStr ''health_check''),
                                     (''timestamp'', PyStr ts)] in
               (case requests_post (insightflow_endpoint self) (PyDict health_payload)
                       (timeout self) w2 of
                  (Inr response, w3) \<Rightarrow>
                    (case utcnow_isoformat w3 of
                       (ts', w4) \<Rightarrow>
                         (Inr (PyDict [(''status'',
                                          PyStr (if status_code response \<in> {200, 201}
                                                 then ''healthy'' else ''unhealthy'')),
                                       (''endpoint'', PyStr (insightflow_endpoint self)),
                                       (''status_code'', PyInt (status_code response)),
                                       (''response_time'', PyFloat (elapsed response)),
                                       (''timestamp'', PyStr ts')]), w4))
                | (Inl e, w3) \<Rightarrow>
                    (case utcnow_isoformat w3 of
                       (ts', w4) \<Rightarrow>
                         (Inr (PyDict [(''status'', PyStr ''unhealthy''),
                                       (''endpoint'', PyStr (insightflow_endpoint self)),
                                       (''error'', PyStr (str_exn w3 e)),
                                       (''timestamp'', PyStr ts')]), w4)))))"

text \<open>Reading a field of a returned dictionary, and the calls of \<^verbatim>\<open>requests.post\<close>
  made between two worlds.\<close>

definition field :: "'f py \<Rightarrow> string \<Rightarrow> 'f py option" where
  "field d k = (case d of PyDict items \<Rightarrow> map_of items k | _ \<Rightarrow> None)"

definition new_posts :: "'f world \<Rightarrow> 'f world \<Rightarrow> 'f post_call list" where
  "new_posts w w' = drop (length (posts w)) (posts w')"

text \<open>
  What one attempt of the loop records as its failure, read off the outcome of its
  \<^verbatim>\<open>requests.post\<close>: the exception raised by the call, else the exception raised by
  parsing the body, else the \<^verbatim>\<open>HTTPException\<close> built for a status code other than
  200 and 201; \<open>None\<close> for an attempt that returns.
\<close>

definition attempt_failure :: "exn + 'f response \<Rightarrow> exn option" where
  "attempt_failure outcome =
     (case outcome of
        Inl e \<Rightarrow> Some e
      | Inr response \<Rightarrow>
          (case body_json response of
             Inl e \<Rightarrow> Some e
           | Inr d \<Rightarrow>
               if status_code response \<in> {200, 201} then None
               else Some (HTTPException (status_code response)
                            (''InsightFlow returned status '' @ str_int (status_code response)))))"

section \<open>The normalization routes (\<^verbatim>\<open>src/routes/normalization.py\<close>)\<close>

text \<open>The pydantic models \<^verbatim>\<open>NormalizeStateRequest\<close>, \<^verbatim>\<open>NormalizeStateBatchRequest\<close> and
  \<^verbatim>\<open>StateSchema\<close>. The fields of the request carry the prefix \<open>req_\<close>: two records cannot
  share a field name, and \<open>context\<close> is a keyword.\<close>

record 'f NormalizeStateRequest =
  req_module :: string
  req_action_type :: string
  req_raw_value :: 'f
  req_context :: "(string \<times> 'f py) list option"
  req_metadata :: "(string \<times> 'f py) list option"

record 'f NormalizeStateBatchRequest =
  states :: "'f NormalizeStateRequest list"

record 'f StateSchema =
  state_id :: string
  module :: string
  action_type :: string
  weight :: 'f
  feedback_value :: 'f
  timestamp :: string

text \<open>The weights returned when the file cannot be loaded. The float literals of the
  source are decimals; \<open>float_of_decimal\<close> gives the float each one denotes.\<close>

definition default_weights :: "'f world \<Rightarrow> 'f py" where
  "default_weights w =
     PyDict [(''default_behavior_weights'',
              PyDict [(''finance'', PyFloat (float_of_decimal w 1.0)),
                      (''game'', PyFloat (float_of_decimal w 1.2)),
                      (''gurukul'', PyFloat (float_of_decimal w 1.3)),
                      (''insight'', PyFloat (float_of_decimal w 1.1))])]"

text \<open>\<^verbatim>\<open>load_context_weights\<close>: \<open>weights_file\<close> is the outcome of opening and parsing
  \<^verbatim>\<open>context_weights.json\<close> at this call, any JSON value or an exception.\<close>

definition load_context_weights :: "'f world \<Rightarrow> 'f py \<times> 'f world" where
  "load_context_weights w =
     (case weights_file w (n_loads w) of
        Inr doc \<Rightarrow> (doc, w\<lparr>n_loads := Suc (n_loads w)\<rparr>)
      | Inl e \<Rightarrow> (default_weights w, w\<lparr>n_loads := Suc (n_loads w)\<rparr>))"

text \<open>\<^verbatim>\<open>x.get(k, default)\<close> on any value: only a dictionary has the method.\<close>

definition py_get :: "'f py \<Rightarrow> string \<Rightarrow> 'f py \<Rightarrow> exn + 'f py" where
  "py_get x k dflt =
     (case x of
        PyDict items \<Rightarrow> Inr (dict_get items k dflt)
      | _ \<Rightarrow> Inl (Error ''AttributeError'' ''object has no attribute get''))"

text \<open>The float that a Python number converts to, in a product with a float and in
  a pydantic field of type \<^verbatim>\<open>float\<close>: a float is itself, an integer (and a boolean,
  which is an integer) is converted, which overflows on a large integer. In the source
  the product is computed first, so the other values reach neither.\<close>

definition as_float :: "'f world \<Rightarrow> 'f py \<Rightarrow> exn + 'f" where
  "as_float w v =
     (case v of
        PyFloat y \<Rightarrow> Inr y
      | PyInt i \<Rightarrow> float_of_int w i
      | PyBool b \<Rightarrow> float_of_int w (if b then 1 else 0)
      | _ \<Rightarrow> Inl (Error ''TypeError'' ''not a number''))"

text \<open>\<^verbatim>\<open>x * v\<close> for a float \<open>x\<close> and any value \<open>v\<close>.\<close>

definition float_mul :: "'f world \<Rightarrow> 'f \<Rightarrow> 'f py \<Rightarrow> exn + 'f" where
  "float_mul w x v =
     (case as_float w v of
        Inl e \<Rightarrow> Inl e
      | Inr y \<Rightarrow> Inr (fmul w x y))"

text \<open>\<^verbatim>\<open>normalize_single_state\<close>, in the order of evaluation of the source: the UUID,
  the weights, the two lookups, the product, then the arguments of \<^verbatim>\<open>StateSchema\<close>.\<close>

definition normalize_single_state ::
  "'f NormalizeStateRequest \<Rightarrow> 'f world \<Rightarrow> (exn + 'f StateSchema) \<times> 'f world" where
  "normalize_single_state request w =
     (case uuid4_str w of
        (sid, w1) \<Rightarrow>
          (case load_context_weights w1 of
             (weights, w2) \<Rightarrow>
               (case py_get weights ''default_behavior_weights'' (PyDict []) of
                  Inl e \<Rightarrow> (Inl e, w2)
                | Inr behavior_weights \<Rightarrow>
                    (case py_get behavior_weights (req_module request)
                            (PyFloat (float_of_decimal w2 1.0)) of
                       Inl e \<Rightarrow> (Inl e, w2)
                     | Inr module_weight \<Rightarrow>
                         (case float_mul w2 (req_raw_value request) module_weight of
                            Inl e \<Rightarrow> (Inl e, w2)
                          | Inr normalized_value \<Rightarrow>
                              (case utcnow_isoformat w2 of
                                 (ts, w3) \<Rightarrow>
                                   (case as_float w3 module_weight of
                                      Inl e \<Rightarrow> (Inl e, w3)
                                    | Inr module_weight_float \<Rightarrow>
                                        (Inr \<lparr>state_id = sid,
                                              module = req_module request,
                                              action_type = req_action_type request,
                                              weight = module_weight_float,
                                              feedback_value = normalized_value,
                                              timestamp = ts\<rparr>, w3))))))))"

text \<open>\<^verbatim>\<open>karma_events_col.insert_one\<close>: the collection appends the document, or the
  write fails with an exception.\<close>

definition insert_one :: "'f py \<Rightarrow> 'f world \<Rightarrow> (exn + unit) \<times> 'f world" where
  "insert_one doc w =
     (case insert_result w (n_inserts w) of
        Some e \<Rightarrow> (Inl e, w\<lparr>n_inserts := Suc (n_inserts w)\<rparr>)
      | None \<Rightarrow>
          (Inr (), w\<lparr>n_inserts := Suc (n_inserts w),
                     karma_events_col := karma_events_col w @ [doc]\<rparr>))"

text \<open>An optional dictionary as a value.\<close>

definition opt_dict :: "(string \<times> 'f py) list option \<Rightarrow> 'f py" where
  "opt_dict d = (case d of Some items \<Rightarrow> PyDict items | None \<Rightarrow> PyNone)"

text \<open>The first loop of \<^verbatim>\<open>normalize_state_batch\<close>, over the requests that remain,
  with the list \<^verbatim>\<open>normalized_states\<close> built so far.\<close>

fun normalize_loop ::
  "'f NormalizeStateRequest list \<Rightarrow> 'f StateSchema list \<Rightarrow> 'f world \<Rightarrow>
   (exn + 'f StateSchema list) \<times> 'f world" where
  "normalize_loop [] normalized_states w = (Inr normalized_states, w)"
| "normalize_loop (state_request # rest) normalized_states w =
     (case normalize_single_state state_request w of
        (Inl e, w1) \<Rightarrow> (Inl e, w1)
      | (Inr normalized_state, w1) \<Rightarrow>
          normalize_loop rest (normalized_states @ [normalized_state]) w1)"

text \<open>The event record that the second loop writes for a normalized state:
  \<^verbatim>\<open>original_request\<close> is the first request of the batch with the action type of the
  state (\<^verbatim>\<open>next\<close> over the generator, \<open>None\<close> when there is none).\<close>

definition event_record ::
  "'f NormalizeStateRequest list \<Rightarrow> 'f StateSchema \<Rightarrow> string \<Rightarrow> 'f py" where
  "event_record request_states normalized_state created_at =
     (let original_request =
            find (\<lambda>req. req_action_type req = action_type normalized_state) request_states
      in PyDict
           [(''event_id'', PyStr (state_id normalized_state)),
            (''event_type'', PyStr ''normalized_state''),
            (''data'',
             PyDict
               [(''module'', PyStr (module normalized_state)),
                (''action_type'', PyStr (action_type normalized_state)),
                (''raw_value'',
                 (case original_request of
                    Some req \<Rightarrow> PyFloat (req_raw_value req) | None \<Rightarrow> PyNone)),
                (''normalized_value'', PyFloat (feedback_value normalized_state)),
                (''weight'', PyFloat (weight normalized_state)),
                (''context'',
                 (case original_request of
                    Some req \<Rightarrow> opt_dict (req_context req) | None \<Rightarrow> PyNone)),
                (''metadata'',
                 (case original_request of
                    Some req \<Rightarrow> opt_dict (req_metadata req) | None \<Rightarrow> PyNone))]),
            (''timestamp'', PyStr (timestamp normalized_state)),
            (''source'', PyStr (''normalization_api_'' @ module normalized_state)),
            (''status'', PyStr ''processed''),
            (''created_at'', PyStr created_at)])"

text \<open>The second loop of \<^verbatim>\<open>normalize_state_batch\<close>, over the normalized states that
  remain.\<close>

fun log_loop ::
  "'f NormalizeStateRequest list \<Rightarrow> 'f StateSchema list \<Rightarrow> 'f world \<Rightarrow>
   (exn + unit) \<times> 'f world" where
  "log_loop request_states [] w = (Inr (), w)"
| "log_loop request_states (normalized_state # rest) w =
     (case utcnow_isoformat w of
        (created_at, w1) \<Rightarrow>
          (case insert_one (event_record request_states normalized_state created_at) w1 of
             (Inl e, w2) \<Rightarrow> (Inl e, w2)
           | (Inr u, w2) \<Rightarrow> log_loop request_states rest w2))"

text \<open>\<^verbatim>\<open>normalize_state_batch\<close>: the two loops inside the \<^verbatim>\<open>try\<close>, and the
  \<^verbatim>\<open>except\<close> that turns any exception into an \<^verbatim>\<open>HTTPException\<close> with status 500.\<close>

definition normalize_state_batch ::
  "'f NormalizeStateBatchRequest \<Rightarrow> 'f world \<Rightarrow> (exn + 'f StateSchema list) \<times> 'f world" where
  "normalize_state_batch request w =
     (case
        (case normalize_loop (states request) [] w of
           (Inl e, w1) \<Rightarrow> (Inl e, w1)
         | (Inr normalized_states, w1) \<Rightarrow>
             (case log_loop (states request) normalized_states w1 of
                (Inl e, w2) \<Rightarrow> (Inl e, w2)
              | (Inr u, w2) \<Rightarrow> (Inr normalized_states, w2)))
      of
        (Inr result, w') \<Rightarrow> (Inr result, w')
      | (Inl e, w') \<Rightarrow>
          (Inl (HTTPException 500 (''Error normalizing batch states: '' @ str_exn w' e)), w'))"

text \<open>The world after \<open>i\<close> calls of \<^verbatim>\<open>normalize_single_state\<close> that returned: each call
  draws one UUID, loads the weights once and reads the clock once.\<close>

definition after_normalizations :: "nat \<Rightarrow> 'f world \<Rightarrow> 'f world" where
  "after_normalizations i w =
     w\<lparr>n_uuid4 := n_uuid4 w + i, n_utcnow := n_utcnow w + i, n_loads := n_loads w + i\<rparr>"

text \<open>A field of the \<open>data\<close> dictionary of an event record.\<close>

definition data_field :: "'f py \<Rightarrow> string \<Rightarrow> 'f py option" where
  "data_field ev k = (case field ev ''data'' of Some d \<Rightarrow> field d k | None \<Rightarrow> None)"

section \<open>Example inputs\<close>

text \<open>
  Concrete inputs at which the theorems below are instantiated. In the example world
  a float is a rational number with exact arithmetic, the \<open>n\<close>-th UUID is \<open>uuid-n\<close>, the
  clock reads \<open>t0\<close>, \<open>t1\<close>, ..., the file of weights does not exist and every insertion
  succeeds; the network is a parameter. \<open>every_call x\<close> answers every call with \<open>x\<close>;
  \<open>calls xs x\<close> answers the first calls with the elements of \<open>xs\<close> and every later
  call with \<open>x\<close>.
\<close>

definition every_call :: "'a \<Rightarrow> nat \<Rightarrow> 'a" where
  "every_call x n = x"

definition calls :: "'a list \<Rightarrow> 'a \<Rightarrow> nat \<Rightarrow> 'a" where
  "calls xs x n = (if n < length xs then xs ! n else x)"

definition example_world :: "(nat \<Rightarrow> exn + rat response) \<Rightarrow> rat world" where
  "example_world net =
     \<lparr>fmul = (*),
      float_of_int = (\<lambda>i. Inr (of_int i)),
      float_of_decimal = (\<lambda>q. q),
      str_HTTPException = (\<lambda>code detail. str_int code @ '': '' @ detail),
      uuid4 = (\<lambda>n. ''uuid-'' @ str_nat n),
      n_uuid4 = 0,
      utcnow = (\<lambda>n. ''t'' @ str_nat n),
      n_utcnow = 0,
      post_result = net,
      posts = [],
      weights_file = every_call (Inl (Error ''FileNotFoundError'' ''context_weights.json'')),
      n_loads = 0,
      insert_result = every_call None,
      n_inserts = 0,
      karma_events_col = []\<rparr>"

text \<open>A response with an empty body, a response whose body is the JSON object with
  the single entry \<open>ok: true\<close>, and a response whose body is not JSON.\<close>

definition empty_response :: "int \<Rightarrow> rat response" where
  "empty_response code =
     \<lparr>status_code = code, content = [],
      json = Inl (Error ''JSONDecodeError'' ''Expecting value''), elapsed = 0\<rparr>"

definition json_response :: "int \<Rightarrow> rat response" where
  "json_response code =
     \<lparr>status_code = code,
      content = ''{'' @ [CHR 0x22] @ ''ok'' @ [CHR 0x22] @ '': true}'',
      json = Inr (PyDict [(''ok'', PyBool True)]), elapsed = 0\<rparr>"

definition garbled_response :: "int \<Rightarrow> rat response" where
  "garbled_response code =
     \<lparr>status_code = code, content = ''oops'',
      json = Inl (Error ''JSONDecodeError'' ''Expecting value''), elapsed = 0\<rparr>"

definition connection_error :: exn where
  "connection_error = Error ''ConnectionError'' ''Connection refused''"

text \<open>A bridge with the default endpoint and timeout.\<close>

definition example_bridge :: "int \<Rightarrow> bool \<Rightarrow> bridge" where
  "example_bridge n en =
     STPBridge (Some \<lparr>cfg_insightflow_endpoint = None, cfg_retry_attempts = Some n,
                      cfg_timeout = None, cfg_enabled = Some en\<rparr>)"

text \<open>A request without context and metadata, and a file of weights with the single
  entry \<open>game: 2.0\<close>.\<close>

definition example_request :: "string \<Rightarrow> string \<Rightarrow> rat \<Rightarrow> rat NormalizeStateRequest" where
  "example_request m a x =
     \<lparr>req_module = m, req_action_type = a, req_raw_value = x,
      req_context = None, req_metadata = None\<rparr>"

definition example_weights :: "rat py" where
  "example_weights = PyDict [(''default_behavior_weights'', PyDict [(''game'', PyFloat 2)])]"

section \<open>The retry loop\<close>

text \<open>
  One iteration of the loop, for an attempt that fails and for one that returns; then
  the loop over attempts that all fail, and the loop up to the first attempt that
  returns. The world changes by the calls recorded in \<open>posts\<close> only.
\<close>

lemma send_loop_step_fail:
  "attempt_failure (post_result w (length (posts w))) = Some e \<Longrightarrow>
   send_loop self p (a # rest) last_exception w =
   send_loop self p rest e
     (w\<lparr>posts := posts w @ [\<lparr>p_url = insightflow_endpoint self, p_json = p,
                               p_timeout = timeout self\<rparr>]\<rparr>)"
  by (auto simp: attempt_failure_def requests_post_def split: sum.splits if_splits)


lemma send_loop_all_fail:
  "\<forall>i<length as. attempt_failure (post_result w (length (posts w) + i)) \<noteq> None \<Longrightarrow>
   \<exists>e. send_loop self p as last_exception w =
         (Inl e, w\<lparr>posts := posts w @ replicate (length as)
                      \<lparr>p_url = insightflow_endpoint self, p_json = p,
                       p_timeout = timeout self\<rparr>\<rparr>)
      \<and> (if as = [] then e = last_exception
         else attempt_failure (post_result w (length (posts w) + length as - 1)) = Some e)"
proof (induction as arbitrary: last_exception w)
  case Nil
  then show ?case by simp
next
  case (Cons a rest)
  let ?c = "\<lparr>p_url = insightflow_endpoint self, p_json = p, p_timeout = timeout self\<rparr>"
  let ?w1 = "w\<lparr>posts := posts w @ [?c]\<rparr>"
  from Cons.prems have "attempt_failure (post_result w (length (posts w) + 0)) \<noteq> None"
    by (metis length_Cons zero_less_Suc)
  then obtain e0 where e0: "attempt_failure (post_result w (length (posts w))) = Some e0"
    by auto
  have step: "send_loop self p (a # rest) last_exception w = send_loop self p rest e0 ?w1"
    by (rule send_loop_step_fail [OF e0])
  have "\<forall>i<length rest. attempt_failure (post_result ?w1 (length (posts ?w1) + i)) \<noteq> None"
    using Cons.prems by auto
  from Cons.IH [OF this, of e0] obtain e where
    e: "send_loop self p rest e0 ?w1 =
          (Inl e, ?w1\<lparr>posts := posts ?w1 @ replicate (length rest) ?c\<rparr>)"
       "if rest = [] then e = e0
        else attempt_failure (post_result ?w1 (length (posts ?w1) + length rest - 1)) = Some e"
    by blast
  have "replicate (length (a # rest)) ?c = ?c # replicate (length rest) ?c" by simp
  then have w: "?w1\<lparr>posts := posts ?w1 @ replicate (length rest) ?c\<rparr>
      = w\<lparr>posts := posts w @ replicate (length (a # rest)) ?c\<rparr>" by simp
  have "attempt_failure (post_result w (length (posts w) + length (a # rest) - 1)) = Some e"
    using e(2) e0 by (cases "rest = []") auto
  with step e(1) w show ?case by auto
qed



lemma forward_signal_enabled:
  assumes "enabled self"
  shows "forward_signal self signal w =
    (case send_with_retry self
            (PyDict [(''transmission_id'', PyStr (uuid4 w (Suc (n_uuid4 w)))),
                     (''source'', PyStr ''karmachain_feedback_engine''),
                     (''signal'', PyDict signal),
                     (''timestamp'', PyStr (utcnow w (n_utcnow w)))])
            (w\<lparr>n_uuid4 := Suc (Suc (n_uuid4 w)), n_utcnow := Suc (n_utcnow w)\<rparr>) of
       (Inl e, w4) \<Rightarrow>
         (Inr (PyDict [(''status'', PyStr ''error''),
                       (''signal_id'', dict_get signal ''signal_id'' (PyStr (uuid4 w (n_uuid4 w)))),
                       (''error'', PyStr (str_exn w4 e)),
                       (''timestamp'', PyStr (utcnow w4 (n_utcnow w4)))]),
          w4\<lparr>n_utcnow := Suc (n_utcnow w4)\<rparr>)
     | (Inr response, w4) \<Rightarrow>
         (Inr (PyDict [(''status'', PyStr ''success''),
                       (''signal_id'', dict_get signal ''signal_id'' (PyStr (uuid4 w (n_uuid4 w)))),
                       (''transmission_id'', PyStr (uuid4 w (Suc (n_uuid4 w)))),
                       (''response'', response),
                       (''timestamp'', PyStr (utcnow w4 (n_utcnow w4)))]),
          w4\<lparr>n_utcnow := Suc (n_utcnow w4)\<rparr>))"
  using assms
  by (simp add: forward_signal_def uuid4_str_def utcnow_isoformat_def dict_item_def
           split: prod.splits sum.splits)

lemma str_exn_cong:
  "str_HTTPException w' = str_HTTPException w \<Longrightarrow> str_exn w' e = str_exn w e"
  by (simp add: str_exn_def split: exn.splits)

section \<open>The normalization of one request and of a batch\<close>

text \<open>
  \<^verbatim>\<open>normalize_single_state\<close> as one case distinction on the weights loaded, what a
  returned state says about them, and the two loops of the batch by induction on the
  list they run over.
\<close>

lemma as_float_cong:
  "float_of_int w' = float_of_int w \<Longrightarrow> as_float w' v = as_float w v"
  by (simp add: as_float_def split: py.splits)

lemma load_context_weights_eq:
  "load_context_weights w =
     (case weights_file w (n_loads w) of Inl e \<Rightarrow> default_weights w | Inr doc \<Rightarrow> doc,
      w\<lparr>n_loads := Suc (n_loads w)\<rparr>)"
  by (simp add: load_context_weights_def split: sum.splits)

lemma normalize_single_state_eq:
  "normalize_single_state request w =
     (case py_get (fst (load_context_weights w)) ''default_behavior_weights'' (PyDict []) of
        Inl e \<Rightarrow> (Inl e, w\<lparr>n_uuid4 := Suc (n_uuid4 w), n_loads := Suc (n_loads w)\<rparr>)
      | Inr behavior_weights \<Rightarrow>
          (case py_get behavior_weights (req_module request)
                  (PyFloat (float_of_decimal w 1.0)) of
             Inl e \<Rightarrow> (Inl e, w\<lparr>n_uuid4 := Suc (n_uuid4 w), n_loads := Suc (n_loads w)\<rparr>)
           | Inr module_weight \<Rightarrow>
               (case as_float w module_weight of
                  Inl e \<Rightarrow> (Inl e, w\<lparr>n_uuid4 := Suc (n_uuid4 w), n_loads := Suc (n_loads w)\<rparr>)
                | Inr wt \<Rightarrow>
                    (Inr \<lparr>state_id = uuid4 w (n_uuid4 w),
                          module = req_module request,
                          action_type = req_action_type request,
                          weight = wt,
                          feedback_value = fmul w (req_raw_value request) wt,
                          timestamp = utcnow w (n_utcnow w)\<rparr>,
                     w\<lparr>n_uuid4 := Suc (n_uuid4 w), n_loads := Suc (n_loads w),
                       n_utcnow := Suc (n_utcnow w)\<rparr>))))"
proof -
  let ?w2 = "w\<lparr>n_uuid4 := Suc (n_uuid4 w), n_loads := Suc (n_loads w)\<rparr>"
  let ?w3 = "?w2\<lparr>n_utcnow := Suc (n_utcnow w)\<rparr>"
  have a2: "\<And>v. as_float ?w2 v = as_float w v" by (rule as_float_cong) simp
  have a3: "\<And>v. as_float ?w3 v = as_float w v" by (rule as_float_cong) simp
  have d: "default_weights (w\<lparr>n_uuid4 := Suc (n_uuid4 w)\<rparr>) = default_weights w"
    by (simp add: default_weights_def)
  show ?thesis
    by (simp add: normalize_single_state_def uuid4_str_def utcnow_isoformat_def
          load_context_weights_eq float_mul_def a2 a3 d split: sum.splits)
qed

lemma py_get_InrD:
  "py_get x k dflt = Inr v \<Longrightarrow> \<exists>items. x = PyDict items \<and> v = dict_get items k dflt"
  by (auto simp: py_get_def split: py.splits)

lemma normalize_single_state_InrD:
  assumes "normalize_single_state request w = (Inr st, w')"
  shows "\<exists>mapping wt.
           py_get (fst (load_context_weights w)) ''default_behavior_weights'' (PyDict [])
             = Inr (PyDict mapping)
         \<and> as_float w (dict_get mapping (req_module request)
                          (PyFloat (float_of_decimal w 1.0))) = Inr wt
         \<and> st = \<lparr>state_id = uuid4 w (n_uuid4 w),
                  module = req_module request,
                  action_type = req_action_type request,
                  weight = wt,
                  feedback_value = fmul w (req_raw_value request) wt,
                  timestamp = utcnow w (n_utcnow w)\<rparr>
         \<and> w' = w\<lparr>n_uuid4 := Suc (n_uuid4 w), n_loads := Suc (n_loads w),
                    n_utcnow := Suc (n_utcnow w)\<rparr>"
proof -
  from assms obtain bw mw wt where
    bw: "py_get (fst (load_context_weights w)) ''default_behavior_weights'' (PyDict []) = Inr bw"
    and mw: "py_get bw (req_module request) (PyFloat (float_of_decimal w 1.0)) = Inr mw"
    and wt: "as_float w mw = Inr wt"
    and st: "st = \<lparr>state_id = uuid4 w (n_uuid4 w),
                  module = req_module request,
                  action_type = req_action_type request,
                  weight = wt,
                  feedback_value = fmul w (req_raw_value request) wt,
                  timestamp = utcnow w (n_utcnow w)\<rparr>"
    and w': "w' = w\<lparr>n_uuid4 := Suc (n_uuid4 w), n_loads := Suc (n_loads w),
                    n_utcnow := Suc (n_utcnow w)\<rparr>"
    unfolding normalize_single_state_eq by (auto split: sum.splits)
  from py_get_InrD [OF mw] obtain mapping where
    "bw = PyDict mapping"
    "mw = dict_get mapping (req_module request) (PyFloat (float_of_decimal w 1.0))"
    by blast
  with bw wt st w' show ?thesis by blast
qed

lemma normalize_single_state_returns:
  assumes "py_get (fst (load_context_weights w)) ''default_behavior_weights'' (PyDict [])
             = Inr (PyDict mapping)"
    and "as_float w (dict_get mapping (req_module request)
                          (PyFloat (float_of_decimal w 1.0))) = Inr wt"
  shows "normalize_single_state request w =
           (Inr \<lparr>state_id = uuid4 w (n_uuid4 w),
                  module = req_module request,
                  action_type = req_action_type request,
                  weight = wt,
                  feedback_value = fmul w (req_raw_value request) wt,
                  timestamp = utcnow w (n_utcnow w)\<rparr>,
            w\<lparr>n_uuid4 := Suc (n_uuid4 w), n_loads := Suc (n_loads w),
                    n_utcnow := Suc (n_utcnow w)\<rparr>)"
  unfolding normalize_single_state_eq using assms by (simp add: py_get_def)

lemma default_mapping:
  "py_get (default_weights w) ''default_behavior_weights'' (PyDict []) =
     Inr (PyDict [(''finance'', PyFloat (float_of_decimal w 1.0)),
                  (''game'', PyFloat (float_of_decimal w 1.2)),
                  (''gurukul'', PyFloat (float_of_decimal w 1.3)),
                  (''insight'', PyFloat (float_of_decimal w 1.1))])"
  by (simp add: default_weights_def py_get_def dict_get_def)

lemma after_normalizations_0: "after_normalizations 0 w = w"
  by (simp add: after_normalizations_def)

lemma after_normalizations_Suc:
  "after_normalizations i (after_normalizations (Suc 0) w) = after_normalizations (Suc i) w"
  by (simp add: after_normalizations_def)

lemma normalize_single_state_after:
  "normalize_single_state request w = (Inr st, w') \<Longrightarrow> w' = after_normalizations (Suc 0) w"
  by (drule normalize_single_state_InrD) (auto simp: after_normalizations_def)

lemma normalize_loop_Inr:
  "normalize_loop reqs acc w = (Inr sts, w') \<Longrightarrow>
   \<exists>new. sts = acc @ new \<and> length new = length reqs
     \<and> (\<forall>i<length reqs.
           fst (normalize_single_state (reqs ! i) (after_normalizations i w)) = Inr (new ! i))
     \<and> w' = after_normalizations (length reqs) w"
proof (induction reqs arbitrary: acc w)
  case Nil
  then show ?case by (simp add: after_normalizations_0)
next
  case (Cons r rest)
  from Cons.prems obtain s w1 where
    s: "normalize_single_state r w = (Inr s, w1)"
    and rest: "normalize_loop rest (acc @ [s]) w1 = (Inr sts, w')"
    by (auto split: prod.splits sum.splits)
  have w1: "w1 = after_normalizations (Suc 0) w"
    by (rule normalize_single_state_after [OF s])
  from Cons.IH [OF rest] obtain new where
    new: "sts = (acc @ [s]) @ new" "length new = length rest"
      "\<forall>i<length rest.
         fst (normalize_single_state (rest ! i) (after_normalizations i w1)) = Inr (new ! i)"
      "w' = after_normalizations (length rest) w1"
    by blast
  have each: "\<forall>i<length (r # rest).
         fst (normalize_single_state ((r # rest) ! i) (after_normalizations i w))
           = Inr ((s # new) ! i)"
  proof (intro allI impI)
    fix i assume i: "i < length (r # rest)"
    show "fst (normalize_single_state ((r # rest) ! i) (after_normalizations i w))
            = Inr ((s # new) ! i)"
    proof (cases i)
      case 0
      with s show ?thesis by (simp add: after_normalizations_0)
    next
      case (Suc j)
      with i new(3) w1 show ?thesis by (simp add: after_normalizations_Suc)
    qed
  qed
  have "sts = acc @ (s # new)" using new(1) by simp
  moreover have "length (s # new) = length (r # rest)" using new(2) by simp
  moreover have "w' = after_normalizations (length (r # rest)) w"
    using new(4) w1 by (simp add: after_normalizations_Suc)
  ultimately show ?case using each by blast
qed

lemma normalize_loop_returns:
  "\<forall>i<length reqs.
     \<exists>st. fst (normalize_single_state (reqs ! i) (after_normalizations i w)) = Inr st \<Longrightarrow>
   \<exists>sts. normalize_loop reqs acc w = (Inr sts, after_normalizations (length reqs) w)"
proof (induction reqs arbitrary: acc w)
  case Nil
  then show ?case by (simp add: after_normalizations_0)
next
  case (Cons r rest)
  from Cons.prems have "\<exists>st. fst (normalize_single_state ((r # rest) ! 0)
                                  (after_normalizations 0 w)) = Inr st"
    by blast
  then obtain s w1 where s: "normalize_single_state r w = (Inr s, w1)"
    by (cases "normalize_single_state r w") (auto simp: after_normalizations_0)
  have w1: "w1 = after_normalizations (Suc 0) w"
    by (rule normalize_single_state_after [OF s])
  have "\<forall>i<length rest.
     \<exists>st. fst (normalize_single_state (rest ! i) (after_normalizations i w1)) = Inr st"
  proof (intro allI impI)
    fix i assume "i < length rest"
    then have "Suc i < length (r # rest)" by simp
    with Cons.prems
    have "\<exists>st. fst (normalize_single_state ((r # rest) ! Suc i)
                      (after_normalizations (Suc i) w)) = Inr st" by blast
    then show "\<exists>st. fst (normalize_single_state (rest ! i) (after_normalizations i w1)) = Inr st"
      unfolding w1 by (simp add: after_normalizations_Suc)
  qed
  from Cons.IH [OF this, of "acc @ [s]"] obtain sts where
    "normalize_loop rest (acc @ [s]) w1 = (Inr sts, after_normalizations (length rest) w1)"
    by blast
  with s w1 show ?case by (simp add: after_normalizations_Suc)
qed

lemma log_loop_returns:
  "\<forall>i<length sts. insert_result w (n_inserts w + i) = None \<Longrightarrow>
   \<exists>w'. log_loop reqs sts w = (Inr (), w')
      \<and> length (karma_events_col w') = length (karma_events_col w) + length sts"
proof (induction sts arbitrary: w)
  case Nil
  then show ?case by simp
next
  case (Cons s rest)
  let ?w1 = "w\<lparr>n_utcnow := Suc (n_utcnow w)\<rparr>"
  let ?w2 = "?w1\<lparr>n_inserts := Suc (n_inserts ?w1),
                   karma_events_col := karma_events_col ?w1 @
                     [event_record reqs s (utcnow w (n_utcnow w))]\<rparr>"
  from Cons.prems have 0: "insert_result w (n_inserts w + 0) = None"
    by (metis length_Cons zero_less_Suc)
  have step: "log_loop reqs (s # rest) w = log_loop reqs rest ?w2"
    using 0 by (simp add: utcnow_isoformat_def insert_one_def)
  have "\<forall>i<length rest. insert_result ?w2 (n_inserts ?w2 + i) = None"
    using Cons.prems by auto
  from Cons.IH [OF this] obtain w' where
    "log_loop reqs rest ?w2 = (Inr (), w')"
    "length (karma_events_col w') = length (karma_events_col ?w2) + length rest"
    by blast
  with step show ?case by simp
qed

lemma normalize_single_state_fields:
  "fst (normalize_single_state request w) = Inr st \<Longrightarrow>
   module st = req_module request \<and> action_type st = req_action_type request"
proof -
  assume a: "fst (normalize_single_state request w) = Inr st"
  obtain w' where "normalize_single_state request w = (Inr st, w')"
    using a by (cases "normalize_single_state request w") simp
  from normalize_single_state_InrD [OF this] show ?thesis by auto
qed

text \<open>The definitions that evaluate the examples.\<close>

lemmas ex_defs = example_world_def example_bridge_def STPBridge_def config_get_def
  every_call_def calls_def empty_response_def json_response_def garbled_response_def
  connection_error_def

lemmas norm_defs = normalize_single_state_def uuid4_str_def utcnow_isoformat_def
  load_context_weights_def default_weights_def py_get_def dict_get_def float_mul_def
  as_float_def

section \<open>Claims about the normalization routes\<close>

text \<open>
  Claim C1. Every state that \<^verbatim>\<open>normalize_single_state\<close> returns has
  \<open>feedback_value = raw_value * weight\<close> and carries that weight in its field \<open>weight\<close>,
  where the weight is the entry of the request's module in the weight mapping, or 1.0
  when the mapping has no such entry. The mapping is the one under
  \<open>default_behavior_weights\<close> in the loaded file, and is finance 1.0, game 1.2,
  gurukul 1.3, insight 1.1 when the file fails to load. The product is the float
  product of the interpreter, whatever it computes. The second and third part say that
  the call does return: always when the file fails to load, and when the file holds a
  mapping whose entry for the module is a float or is missing.
\<close>

theorem normalize_single_state_feedback_value:
  "(\<forall>st w'. normalize_single_state request w = (Inr st, w') \<longrightarrow>
      (\<exists>mapping wt.
          (case weights_file w (n_loads w) of
             Inl e \<Rightarrow> mapping = [(''finance'', PyFloat (float_of_decimal w 1.0)),
                                  (''game'', PyFloat (float_of_decimal w 1.2)),
                                  (''gurukul'', PyFloat (float_of_decimal w 1.3)),
                                  (''insight'', PyFloat (float_of_decimal w 1.1))]
           | Inr doc \<Rightarrow>
               py_get doc ''default_behavior_weights'' (PyDict []) = Inr (PyDict mapping))
        \<and> as_float w (case map_of mapping (req_module request) of
                         Some v \<Rightarrow> v
                       | None \<Rightarrow> PyFloat (float_of_decimal w 1.0)) = Inr wt
        \<and> feedback_value st = fmul w (req_raw_value request) wt
        \<and> weight st = wt))
   \<and> (\<forall>e. weights_file w (n_loads w) = Inl e \<longrightarrow>
        fst (load_context_weights w) = default_weights w
      \<and> (\<exists>st w'. normalize_single_state request w = (Inr st, w')
           \<and> weight st = float_of_decimal w
                 (if req_module request = ''finance'' then 1.0
                  else if req_module request = ''game'' then 1.2
                  else if req_module request = ''gurukul'' then 1.3
                  else if req_module request = ''insight'' then 1.1
                  else 1.0)
           \<and> feedback_value st = fmul w (req_raw_value request) (weight st)))
   \<and> (\<forall>doc mapping x.
         weights_file w (n_loads w) = Inr (PyDict doc)
       \<and> map_of doc ''default_behavior_weights'' = Some (PyDict mapping)
       \<and> (map_of mapping (req_module request) = Some (PyFloat x)
          \<or> map_of mapping (req_module request) = None \<and> x = float_of_decimal w 1.0) \<longrightarrow>
        (\<exists>st w'. normalize_single_state request w = (Inr st, w')
           \<and> weight st = x
           \<and> feedback_value st = fmul w (req_raw_value request) x))"
proof (intro conjI allI impI)
  fix st w'
  assume run: "normalize_single_state request w = (Inr st, w')"
  from normalize_single_state_InrD [OF run] obtain mapping wt where
    m: "py_get (fst (load_context_weights w)) ''default_behavior_weights'' (PyDict [])
             = Inr (PyDict mapping)"
    and wt: "as_float w (dict_get mapping (req_module request)
                          (PyFloat (float_of_decimal w 1.0))) = Inr wt"
    and st: "feedback_value st = fmul w (req_raw_value request) wt" "weight st = wt"
    by auto
  have "case weights_file w (n_loads w) of
             Inl e \<Rightarrow> mapping = [(''finance'', PyFloat (float_of_decimal w 1.0)),
                                  (''game'', PyFloat (float_of_decimal w 1.2)),
                                  (''gurukul'', PyFloat (float_of_decimal w 1.3)),
                                  (''insight'', PyFloat (float_of_decimal w 1.1))]
           | Inr doc \<Rightarrow>
               py_get doc ''default_behavior_weights'' (PyDict []) = Inr (PyDict mapping)"
    using m by (simp add: load_context_weights_eq default_mapping split: sum.splits)
  with wt st
  show "\<exists>mapping wt.
          (case weights_file w (n_loads w) of
             Inl e \<Rightarrow> mapping = [(''finance'', PyFloat (float_of_decimal w 1.0)),
                                  (''game'', PyFloat (float_of_decimal w 1.2)),
                                  (''gurukul'', PyFloat (float_of_decimal w 1.3)),
                                  (''insight'', PyFloat (float_of_decimal w 1.1))]
           | Inr doc \<Rightarrow>
               py_get doc ''default_behavior_weights'' (PyDict []) = Inr (PyDict mapping))
        \<and> as_float w (case map_of mapping (req_module request) of
                         Some v \<Rightarrow> v
                       | None \<Rightarrow> PyFloat (float_of_decimal w 1.0)) = Inr wt
        \<and> feedback_value st = fmul w (req_raw_value request) wt
        \<and> weight st = wt"
    unfolding dict_get_def by blast
next
  fix e
  assume "weights_file w (n_loads w) = Inl e"
  then show "fst (load_context_weights w) = default_weights w"
    by (simp add: load_context_weights_def)
next
  fix e
  assume e: "weights_file w (n_loads w) = Inl e"
  let ?x = "float_of_decimal w
                 (if req_module request = ''finance'' then 1.0
                  else if req_module request = ''game'' then 1.2
                  else if req_module request = ''gurukul'' then 1.3
                  else if req_module request = ''insight'' then 1.1
                  else 1.0)"
  have 1: "py_get (fst (load_context_weights w)) ''default_behavior_weights'' (PyDict [])
        = Inr (PyDict [(''finance'', PyFloat (float_of_decimal w 1.0)),
                  (''game'', PyFloat (float_of_decimal w 1.2)),
                  (''gurukul'', PyFloat (float_of_decimal w 1.3)),
                  (''insight'', PyFloat (float_of_decimal w 1.1))])"
    using e by (simp add: load_context_weights_eq default_mapping)
  have 2: "as_float w (dict_get [(''finance'', PyFloat (float_of_decimal w 1.0)),
                  (''game'', PyFloat (float_of_decimal w 1.2)),
                  (''gurukul'', PyFloat (float_of_decimal w 1.3)),
                  (''insight'', PyFloat (float_of_decimal w 1.1))] (req_module request)
                          (PyFloat (float_of_decimal w 1.0))) = Inr ?x"
    by (simp add: dict_get_def as_float_def)
  show "\<exists>st w'. normalize_single_state request w = (Inr st, w')
           \<and> weight st = ?x
           \<and> feedback_value st = fmul w (req_raw_value request) (weight st)"
    unfolding normalize_single_state_returns [OF 1 2] by simp
next
  fix doc mapping x
  assume a: "weights_file w (n_loads w) = Inr (PyDict doc)
       \<and> map_of doc ''default_behavior_weights'' = Some (PyDict mapping)
       \<and> (map_of mapping (req_module request) = Some (PyFloat x)
          \<or> map_of mapping (req_module request) = None \<and> x = float_of_decimal w 1.0)"
  have 1: "py_get (fst (load_context_weights w)) ''default_behavior_weights'' (PyDict [])
        = Inr (PyDict mapping)"
    using a by (simp add: load_context_weights_eq py_get_def dict_get_def)
  have 2: "as_float w (dict_get mapping (req_module request)
                          (PyFloat (float_of_decimal w 1.0))) = Inr x"
    using a by (auto simp: dict_get_def as_float_def)
  show "\<exists>st w'. normalize_single_state request w = (Inr st, w')
           \<and> weight st = x
           \<and> feedback_value st = fmul w (req_raw_value request) x"
    unfolding normalize_single_state_returns [OF 1 2] by simp
qed

text \<open>The theorem at requests with the raw value 2.5: without a file of weights, a game
  request has the weight 1.2 and a request of an unknown module the weight 1.0; with
  the file that gives game the weight 2.0, a game request has the weight 2.0 and a
  finance request the weight 1.0.\<close>

theorem normalize_single_state_feedback_value_witness:
  "weights_file (example_world (every_call (Inl connection_error)))
      (n_loads (example_world (every_call (Inl connection_error))))
     = Inl (Error ''FileNotFoundError'' ''context_weights.json'')
   \<and> fst (load_context_weights (example_world (every_call (Inl connection_error))))
       = default_weights (example_world (every_call (Inl connection_error)))
   \<and> (\<exists>st w'. normalize_single_state (example_request ''game'' ''win'' (5 / 2))
                  (example_world (every_call (Inl connection_error))) = (Inr st, w')
         \<and> weight st = 6 / 5
         \<and> feedback_value st = (5 / 2) * (6 / 5))
   \<and> (\<exists>st w'. normalize_single_state (example_request ''chess'' ''win'' (5 / 2))
                  (example_world (every_call (Inl connection_error))) = (Inr st, w')
         \<and> weight st = 1
         \<and> feedback_value st = (5 / 2) * 1)
   \<and> weights_file ((example_world (every_call (Inl connection_error)))
                     \<lparr>weights_file := every_call (Inr example_weights)\<rparr>) 0
       = Inr example_weights
   \<and> (\<exists>st w'. normalize_single_state (example_request ''game'' ''win'' (5 / 2))
                  ((example_world (every_call (Inl connection_error)))
                     \<lparr>weights_file := every_call (Inr example_weights)\<rparr>) = (Inr st, w')
         \<and> weight st = 2
         \<and> feedback_value st = (5 / 2) * 2)
   \<and> (\<exists>st w'. normalize_single_state (example_request ''finance'' ''pay'' (5 / 2))
                  ((example_world (every_call (Inl connection_error)))
                     \<lparr>weights_file := every_call (Inr example_weights)\<rparr>) = (Inr st, w')
         \<and> weight st = 1
         \<and> feedback_value st = (5 / 2) * 1)"
proof -
  let ?w = "example_world (every_call (Inl connection_error))"
  let ?w2 = "?w\<lparr>weights_file := every_call (Inr example_weights)\<rparr>"
  let ?game = "example_request ''game'' ''win'' (5 / 2)"
  let ?chess = "example_request ''chess'' ''win'' (5 / 2)"
  let ?finance = "example_request ''finance'' ''pay'' (5 / 2)"
  have missing: "weights_file ?w (n_loads ?w)
                   = Inl (Error ''FileNotFoundError'' ''context_weights.json'')"
    by (simp add: example_world_def every_call_def)
  have loaded: "weights_file ?w2 (n_loads ?w2)
        = Inr (PyDict [(''default_behavior_weights'', PyDict [(''game'', PyFloat 2)])])"
    by (simp add: example_world_def every_call_def example_weights_def)
  have loaded0: "weights_file ?w2 0 = Inr example_weights"
    by (simp add: example_world_def every_call_def)
  have ops: "fmul ?w = (*)" "\<And>q. float_of_decimal ?w q = q"
    "fmul ?w2 = (*)" "\<And>q. float_of_decimal ?w2 q = q"
    by (simp_all add: example_world_def)
  note G = normalize_single_state_feedback_value [of ?game ?w]
  note C = normalize_single_state_feedback_value [of ?chess ?w]
  note G2 = normalize_single_state_feedback_value [of ?game ?w2]
  note F2 = normalize_single_state_feedback_value [of ?finance ?w2]
  from G missing have d: "fst (load_context_weights ?w) = default_weights ?w"
    by blast
  from G missing obtain st w' where
    "normalize_single_state ?game ?w = (Inr st, w')"
    "weight st = float_of_decimal ?w
                 (if req_module ?game = ''finance'' then 1.0
                  else if req_module ?game = ''game'' then 1.2
                  else if req_module ?game = ''gurukul'' then 1.3
                  else if req_module ?game = ''insight'' then 1.1
                  else 1.0)"
    "feedback_value st = fmul ?w (req_raw_value ?game) (weight st)"
    by blast
  then have g: "\<exists>st w'. normalize_single_state ?game ?w = (Inr st, w')
         \<and> weight st = 6 / 5 \<and> feedback_value st = (5 / 2) * (6 / 5)"
    by (simp add: ops example_request_def)
  from C missing obtain st w' where
    "normalize_single_state ?chess ?w = (Inr st, w')"
    "weight st = float_of_decimal ?w
                 (if req_module ?chess = ''finance'' then 1.0
                  else if req_module ?chess = ''game'' then 1.2
                  else if req_module ?chess = ''gurukul'' then 1.3
                  else if req_module ?chess = ''insight'' then 1.1
                  else 1.0)"
    "feedback_value st = fmul ?w (req_raw_value ?chess) (weight st)"
    by blast
  then have c: "\<exists>st w'. normalize_single_state ?chess ?w = (Inr st, w')
         \<and> weight st = 1 \<and> feedback_value st = (5 / 2) * 1"
    by (simp add: ops example_request_def)
  have mg: "map_of [(''game'', PyFloat (2::rat))] (req_module ?game) = Some (PyFloat 2)"
    by (simp add: example_request_def)
  have md: "map_of [(''default_behavior_weights'', PyDict [(''game'', PyFloat (2::rat))])]
              ''default_behavior_weights'' = Some (PyDict [(''game'', PyFloat 2)])"
    by simp
  from G2 loaded md mg obtain st w' where
    "normalize_single_state ?game ?w2 = (Inr st, w')" "weight st = 2"
    "feedback_value st = fmul ?w2 (req_raw_value ?game) 2"
    by blast
  then have g2: "\<exists>st w'. normalize_single_state ?game ?w2 = (Inr st, w')
         \<and> weight st = 2 \<and> feedback_value st = (5 / 2) * 2"
    by (simp add: ops example_request_def)
  have mf: "map_of [(''game'', PyFloat (2::rat))] (req_module ?finance) = None
            \<and> (1::rat) = float_of_decimal ?w2 1.0"
    by (simp add: example_request_def ops)
  from F2 loaded md mf obtain st w' where
    "normalize_single_state ?finance ?w2 = (Inr st, w')" "weight st = 1"
    "feedback_value st = fmul ?w2 (req_raw_value ?finance) 1"
    by blast
  then have f2: "\<exists>st w'. normalize_single_state ?finance ?w2 = (Inr st, w')
         \<and> weight st = 1 \<and> feedback_value st = (5 / 2) * 1"
    by (simp add: ops example_request_def)
  from missing d g c loaded0 g2 f2 show ?thesis by blast
qed

text \<open>
  Claim C5 says that the event record written for the \<open>i\<close>-th normalized state carries
  the raw value, context and metadata of the \<open>i\<close>-th request. The source looks the
  request up by action type instead. On the batch of a finance request and a game
  request that share the action type \<open>deposit\<close>, with raw values 10 and 20 and a
  context on the second only, the second event record carries the normalized value 24
  of the second request, and the raw value 10 and the missing context of the first.
\<close>

theorem normalize_state_batch_duplicate_action_type:
  "fst (normalize_state_batch
          \<lparr>states = [example_request ''finance'' ''deposit'' 10,
                     (example_request ''game'' ''deposit'' 20)
                       \<lparr>req_context := Some [(''level'', PyInt 3)]\<rparr>]\<rparr>
          (example_world (every_call (Inl connection_error))))
     = Inr [\<lparr>state_id = ''uuid-0'', module = ''finance'', action_type = ''deposit'',
             weight = 1, feedback_value = 10, timestamp = ''t0''\<rparr>,
            \<lparr>state_id = ''uuid-1'', module = ''game'', action_type = ''deposit'',
             weight = 6 / 5, feedback_value = 24, timestamp = ''t1''\<rparr>]
   \<and> req_raw_value ((example_request ''game'' ''deposit'' 20)
                       \<lparr>req_context := Some [(''level'', PyInt 3)]\<rparr>) = 20
   \<and> req_context ((example_request ''game'' ''deposit'' 20)
                       \<lparr>req_context := Some [(''level'', PyInt 3)]\<rparr>)
       = Some [(''level'', PyInt 3)]
   \<and> data_field
        (karma_events_col
           (snd (normalize_state_batch
                   \<lparr>states = [example_request ''finance'' ''deposit'' 10,
                              (example_request ''game'' ''deposit'' 20)
                                \<lparr>req_context := Some [(''level'', PyInt 3)]\<rparr>]\<rparr>
                   (example_world (every_call (Inl connection_error))))) ! 1)
        ''normalized_value'' = Some (PyFloat 24)
   \<and> data_field
        (karma_events_col
           (snd (normalize_state_batch
                   \<lparr>states = [example_request ''finance'' ''deposit'' 10,
                              (example_request ''game'' ''deposit'' 20)
                                \<lparr>req_context := Some [(''level'', PyInt 3)]\<rparr>]\<rparr>
                   (example_world (every_call (Inl connection_error))))) ! 1)
        ''raw_value'' = Some (PyFloat 10)
   \<and> data_field
        (karma_events_col
           (snd (normalize_state_batch
                   \<lparr>states = [example_request ''finance'' ''deposit'' 10,
                              (example_request ''game'' ''deposit'' 20)
                                \<lparr>req_context := Some [(''level'', PyInt 3)]\<rparr>]\<rparr>
                   (example_world (every_call (Inl connection_error))))) ! 1)
        ''context'' = Some PyNone"
  by (simp add: normalize_state_batch_def norm_defs insert_one_def event_record_def
        opt_dict_def data_field_def field_def example_request_def example_world_def
        every_call_def str_nat.simps)

text \<open>
  Claim C6. When \<^verbatim>\<open>normalize_state_batch\<close> returns, it returns one state per request,
  in the order of the requests: the \<open>i\<close>-th state is what \<^verbatim>\<open>normalize_single_state\<close>
  returns for the \<open>i\<close>-th request alone, in the world after \<open>i\<close> earlier calls, so it
  depends on no other request. The second part says that the batch does return when
  each of these single calls returns and each insertion succeeds.
\<close>

theorem normalize_state_batch_order:
  "(\<forall>sts w'. normalize_state_batch request w = (Inr sts, w') \<longrightarrow>
       length sts = length (states request)
     \<and> (\<forall>i<length (states request).
           fst (normalize_single_state (states request ! i) (after_normalizations i w))
             = Inr (sts ! i))
     \<and> map module sts = map req_module (states request)
     \<and> map action_type sts = map req_action_type (states request))
   \<and> ((\<forall>i<length (states request).
          \<exists>st. fst (normalize_single_state (states request ! i) (after_normalizations i w))
                 = Inr st)
      \<and> (\<forall>i<length (states request). insert_result w (n_inserts w + i) = None)
      \<longrightarrow> (\<exists>sts w'. normalize_state_batch request w = (Inr sts, w')))"
proof (intro conjI allI impI)
  fix sts w'
  assume run: "normalize_state_batch request w = (Inr sts, w')"
  then obtain w1 where "normalize_loop (states request) [] w = (Inr sts, w1)"
    by (auto simp: normalize_state_batch_def split: prod.splits sum.splits)
  from normalize_loop_Inr [OF this]
  have len: "length sts = length (states request)"
    and each: "\<forall>i<length (states request).
           fst (normalize_single_state (states request ! i) (after_normalizations i w))
             = Inr (sts ! i)"
    by auto
  show "length sts = length (states request)" by (rule len)
  show "\<And>i. i < length (states request) \<Longrightarrow>
           fst (normalize_single_state (states request ! i) (after_normalizations i w))
             = Inr (sts ! i)"
    using each by blast
  show "map module sts = map req_module (states request)"
    using len each by (auto simp: list_eq_iff_nth_eq dest!: normalize_single_state_fields)
  show "map action_type sts = map req_action_type (states request)"
    using len each by (auto simp: list_eq_iff_nth_eq dest!: normalize_single_state_fields)
next
  assume a: "(\<forall>i<length (states request).
          \<exists>st. fst (normalize_single_state (states request ! i) (after_normalizations i w))
                 = Inr st)
      \<and> (\<forall>i<length (states request). insert_result w (n_inserts w + i) = None)"
  let ?w1 = "after_normalizations (length (states request)) w"
  from a normalize_loop_returns [of "states request" w "[]"] obtain sts where
    sts: "normalize_loop (states request) [] w = (Inr sts, ?w1)"
    by blast
  from normalize_loop_Inr [OF sts] have len: "length sts = length (states request)"
    by auto
  have "\<forall>i<length sts. insert_result ?w1 (n_inserts ?w1 + i) = None"
    using a len by (simp add: after_normalizations_def)
  from log_loop_returns [OF this, of "states request"] obtain w2 where
    "log_loop (states request) sts ?w1 = (Inr (), w2)"
    by blast
  with sts show "\<exists>sts w'. normalize_state_batch request w = (Inr sts, w')"
    by (simp add: normalize_state_batch_def)
qed

text \<open>The theorem at the batch of the two requests above, which normalize to the
  weights 1.0 and 1.2 in this order.\<close>

theorem normalize_state_batch_order_witness:
  "insert_result (example_world (every_call (Inl connection_error))) 0 = None
   \<and> insert_result (example_world (every_call (Inl connection_error))) 1 = None
   \<and> fst (normalize_single_state (example_request ''finance'' ''deposit'' 10)
             (after_normalizations 0 (example_world (every_call (Inl connection_error)))))
       = Inr \<lparr>state_id = ''uuid-0'', module = ''finance'', action_type = ''deposit'',
               weight = 1, feedback_value = 10, timestamp = ''t0''\<rparr>
   \<and> fst (normalize_single_state (example_request ''game'' ''deposit'' 20)
             (after_normalizations 1 (example_world (every_call (Inl connection_error)))))
       = Inr \<lparr>state_id = ''uuid-1'', module = ''game'', action_type = ''deposit'',
               weight = 6 / 5, feedback_value = 24, timestamp = ''t1''\<rparr>
   \<and> (\<exists>sts w'. normalize_state_batch
                   \<lparr>states = [example_request ''finance'' ''deposit'' 10,
                              example_request ''game'' ''deposit'' 20]\<rparr>
                   (example_world (every_call (Inl connection_error))) = (Inr sts, w')
         \<and> length sts = 2
         \<and> sts = [\<lparr>state_id = ''uuid-0'', module = ''finance'', action_type = ''deposit'',
                    weight = 1, feedback_value = 10, timestamp = ''t0''\<rparr>,
                   \<lparr>state_id = ''uuid-1'', module = ''game'', action_type = ''deposit'',
                    weight = 6 / 5, feedback_value = 24, timestamp = ''t1''\<rparr>]
         \<and> map module sts = [''finance'', ''game'']
         \<and> map action_type sts = [''deposit'', ''deposit''])"
proof -
  let ?w = "example_world (every_call (Inl connection_error))"
  let ?r0 = "example_request ''finance'' ''deposit'' 10"
  let ?r1 = "example_request ''game'' ''deposit'' 20"
  let ?s0 = "\<lparr>state_id = ''uuid-0'', module = ''finance'', action_type = ''deposit'',
               weight = 1 :: rat, feedback_value = 10 :: rat, timestamp = ''t0''\<rparr>"
  let ?s1 = "\<lparr>state_id = ''uuid-1'', module = ''game'', action_type = ''deposit'',
               weight = 6 / 5 :: rat, feedback_value = 24 :: rat, timestamp = ''t1''\<rparr>"
  let ?request = "\<lparr>states = [?r0, ?r1]\<rparr>"
  have i0: "insert_result ?w 0 = None" and i1: "insert_result ?w 1 = None"
    by (simp_all add: example_world_def every_call_def)
  have n0: "fst (normalize_single_state ?r0 (after_normalizations 0 ?w)) = Inr ?s0"
    by (simp add: norm_defs after_normalizations_def example_request_def example_world_def
          every_call_def str_nat.simps)
  have n1: "fst (normalize_single_state ?r1 (after_normalizations 1 ?w)) = Inr ?s1"
    by (simp add: norm_defs after_normalizations_def example_request_def example_world_def
          every_call_def str_nat.simps)
  have two: "\<And>i. i < length (states ?request) \<Longrightarrow> i = 0 \<or> i = 1"
    by auto
  have h1: "\<forall>i<length (states ?request).
          \<exists>st. fst (normalize_single_state (states ?request ! i) (after_normalizations i ?w))
                 = Inr st"
  proof (intro allI impI)
    fix i assume "i < length (states ?request)"
    then have "i = 0 \<or> i = 1" by (rule two)
    then show "\<exists>st. fst (normalize_single_state (states ?request ! i)
                          (after_normalizations i ?w)) = Inr st"
      using n0 n1 by auto
  qed
  have h2: "\<forall>i<length (states ?request). insert_result ?w (n_inserts ?w + i) = None"
    by (simp add: example_world_def every_call_def)
  note T = normalize_state_batch_order [of ?request ?w]
  from T h1 h2 obtain sts w' where run: "normalize_state_batch ?request ?w = (Inr sts, w')"
    by blast
  with T have len: "length sts = length (states ?request)"
    and each: "\<forall>i<length (states ?request).
           fst (normalize_single_state (states ?request ! i) (after_normalizations i ?w))
             = Inr (sts ! i)"
    and m: "map module sts = map req_module (states ?request)"
    and a: "map action_type sts = map req_action_type (states ?request)"
    by blast+
  from each have "fst (normalize_single_state ?r0 (after_normalizations 0 ?w)) = Inr (sts ! 0)"
    and "fst (normalize_single_state ?r1 (after_normalizations 1 ?w)) = Inr (sts ! 1)"
    by auto
  with n0 n1 have "sts ! 0 = ?s0" and "sts ! 1 = ?s1" by simp_all
  with len have sts: "sts = [?s0, ?s1]"
    by (auto simp: list_eq_iff_nth_eq less_Suc_eq)
  have "length sts = 2" using len by simp
  moreover have "map module sts = [''finance'', ''game'']"
    and "map action_type sts = [''deposit'', ''deposit'']"
    unfolding sts by simp_all
  ultimately show ?thesis using i0 i1 n0 n1 run sts by simp
qed

section \<open>Claims about the STP bridge\<close>

text \<open>
  Claim C2. The bridge is enabled and each of the \<open>retry_attempts\<close> calls of
  \<^verbatim>\<open>requests.post\<close> raises or returns a status code other than 200 and 201. Then
  \<^verbatim>\<open>forward_signal\<close> returns (it does not raise), it has made exactly \<open>retry_attempts\<close>
  calls, the status of the result is \<open>error\<close>, and its error detail is the \<^verbatim>\<open>str\<close> of the
  failure recorded by the last attempt (of the initial \<open>Unknown error\<close> when there is
  no attempt at all).
\<close>

theorem forward_signal_all_attempts_fail:
  assumes "enabled self" and "0 \<le> retry_attempts self"
    and "\<forall>i<nat (retry_attempts self).
           case post_result w (length (posts w) + i) of
             Inl e \<Rightarrow> True
           | Inr r \<Rightarrow> status_code r \<notin> {200, 201}"
  shows "\<exists>res w' e. forward_signal self signal w = (Inr res, w')
           \<and> int (length (new_posts w w')) = retry_attempts self
           \<and> field res ''status'' = Some (PyStr ''error'')
           \<and> field res ''error'' = Some (PyStr (str_exn w e))
           \<and> (if retry_attempts self = 0 then e = Exception ''Unknown error''
               else attempt_failure
                      (post_result w (length (posts w) + nat (retry_attempts self) - 1)) = Some e)"
proof -
  let ?p = "PyDict [(''transmission_id'', PyStr (uuid4 w (Suc (n_uuid4 w)))),
                     (''source'', PyStr ''karmachain_feedback_engine''),
                     (''signal'', PyDict signal),
                     (''timestamp'', PyStr (utcnow w (n_utcnow w)))]"
  let ?w3 = "w\<lparr>n_uuid4 := Suc (Suc (n_uuid4 w)), n_utcnow := Suc (n_utcnow w)\<rparr>"
  let ?as = "[0..retry_attempts self - 1]"
  let ?c = "\<lparr>p_url = insightflow_endpoint self, p_json = ?p, p_timeout = timeout self\<rparr>"
  have len: "length ?as = nat (retry_attempts self)" by simp
  have fails: "\<forall>i<length ?as. attempt_failure (post_result ?w3 (length (posts ?w3) + i)) \<noteq> None"
  proof (intro allI impI)
    fix i assume "i < length ?as"
    with assms(3) len
    have "case post_result w (length (posts w) + i) of
            Inl e \<Rightarrow> True | Inr r \<Rightarrow> status_code r \<notin> {200, 201}" by simp
    then show "attempt_failure (post_result ?w3 (length (posts ?w3) + i)) \<noteq> None"
      by (auto simp: attempt_failure_def split: sum.splits)
  qed
  from send_loop_all_fail [OF fails, of self ?p "Exception ''Unknown error''"]
  obtain e where
    e: "send_loop self ?p ?as (Exception ''Unknown error'') ?w3 =
          (Inl e, ?w3\<lparr>posts := posts ?w3 @ replicate (length ?as) ?c\<rparr>)"
       "if ?as = [] then e = Exception ''Unknown error''
        else attempt_failure (post_result ?w3 (length (posts ?w3) + length ?as - 1)) = Some e"
    by blast
  have empty: "?as = [] \<longleftrightarrow> retry_attempts self = 0"
    using assms(2) len by (metis length_0_conv nat_0_iff antisym)
  have last: "if retry_attempts self = 0 then e = Exception ''Unknown error''
        else attempt_failure
               (post_result w (length (posts w) + nat (retry_attempts self) - 1)) = Some e"
    using e(2) empty len by (simp split: if_splits)
  let ?w4 = "?w3\<lparr>posts := posts ?w3 @ replicate (length ?as) ?c\<rparr>"
  have str: "str_exn ?w4 e = str_exn w e"
    by (rule str_exn_cong) simp
  let ?res = "PyDict [(''status'', PyStr ''error''),
                      (''signal_id'', dict_get signal ''signal_id'' (PyStr (uuid4 w (n_uuid4 w)))),
                      (''error'', PyStr (str_exn w e)),
                      (''timestamp'', PyStr (utcnow ?w4 (n_utcnow ?w4)))]"
  have run: "forward_signal self signal w = (Inr ?res, ?w4\<lparr>n_utcnow := Suc (n_utcnow ?w4)\<rparr>)"
    unfolding forward_signal_enabled [OF assms(1)] send_with_retry_def e(1) str [symmetric]
    by simp
  have calls: "int (length (new_posts w (?w4\<lparr>n_utcnow := Suc (n_utcnow ?w4)\<rparr>)))
                 = retry_attempts self"
    using assms(2) by (simp add: new_posts_def)
  have "field ?res ''status'' = Some (PyStr ''error'')"
    and "field ?res ''error'' = Some (PyStr (str_exn w e))"
    by (simp_all add: field_def)
  with run calls last show ?thesis by blast
qed

text \<open>The theorem at three attempts: a connection error, a 503 with a garbled body and a
  500. Three calls are made and the error detail is that of the 500.\<close>

theorem forward_signal_all_attempts_fail_witness:
  "enabled (example_bridge 3 True) \<and> 0 \<le> retry_attempts (example_bridge 3 True)
   \<and> post_result (example_world (calls [Inl connection_error, Inr (garbled_response 503)]
                                  (Inr (empty_response 500)))) 0 = Inl connection_error
   \<and> status_code (garbled_response 503) \<notin> {200, 201}
   \<and> status_code (empty_response 500) \<notin> {200, 201}
   \<and> (\<exists>res w'. forward_signal (example_bridge 3 True) []
                   (example_world (calls [Inl connection_error, Inr (garbled_response 503)]
                                     (Inr (empty_response 500)))) = (Inr res, w')
         \<and> int (length (new_posts
                  (example_world (calls [Inl connection_error, Inr (garbled_response 503)]
                                    (Inr (empty_response 500)))) w')) = 3
         \<and> field res ''status'' = Some (PyStr ''error'')
         \<and> field res ''error'' = Some (PyStr ''500: InsightFlow returned status 500''))"
proof -
  let ?b = "example_bridge 3 True"
  let ?w = "example_world (calls [Inl connection_error, Inr (garbled_response 503)]
                              (Inr (empty_response 500)))"
  have n: "retry_attempts ?b = 3" by (simp add: ex_defs)
  have h1: "enabled ?b" by (simp add: ex_defs)
  have h2: "0 \<le> retry_attempts ?b" by (simp add: n)
  have h3: "\<forall>i<nat (retry_attempts ?b).
              case post_result ?w (length (posts ?w) + i) of
                Inl e \<Rightarrow> True
              | Inr r \<Rightarrow> status_code r \<notin> {200, 201}"
  proof (intro allI impI)
    fix i :: nat
    assume "i < nat (retry_attempts ?b)"
    then have "i = 0 \<or> i = 1 \<or> i = 2" unfolding n by auto
    then show "case post_result ?w (length (posts ?w) + i) of
                 Inl e \<Rightarrow> True
               | Inr r \<Rightarrow> status_code r \<notin> {200, 201}"
      by (auto simp: ex_defs)
  qed
  from forward_signal_all_attempts_fail [OF h1 h2 h3, of "[]"]
  obtain res w' e where
    r: "forward_signal ?b [] ?w = (Inr res, w')"
       "int (length (new_posts ?w w')) = retry_attempts ?b"
       "field res ''status'' = Some (PyStr ''error'')"
       "field res ''error'' = Some (PyStr (str_exn ?w e))"
       "if retry_attempts ?b = 0 then e = Exception ''Unknown error''
        else attempt_failure (post_result ?w (length (posts ?w) + nat (retry_attempts ?b) - 1))
               = Some e"
    by blast
  have "attempt_failure (post_result ?w 2) = Some e"
    using r(5) unfolding n by (simp add: example_world_def)
  then have e: "e = HTTPException 500 (''InsightFlow returned status '' @ str_int 500)"
    by (simp add: ex_defs attempt_failure_def body_json_def)
  have "str_int 500 = ''500''"
    by (simp add: str_int_def str_nat.simps)
  then have "str_exn ?w e = ''500: InsightFlow returned status 500''"
    unfolding e by (simp add: str_exn_def example_world_def)
  with r(1-4) n h1 h2 show ?thesis
    by (auto simp: ex_defs)
qed




text \<open>
  Claim C4. With \<open>enabled\<close> false, \<^verbatim>\<open>forward_signal\<close> returns a result with status
  \<open>skipped\<close> and makes no call of \<^verbatim>\<open>requests.post\<close>: the world changes by one reading of
  the clock and nothing else, so there is no attempt and no retry.
\<close>

theorem forward_signal_disabled:
  assumes "\<not> enabled self"
  shows "\<exists>res w'. forward_signal self signal w = (Inr res, w')
           \<and> res = PyDict [(''status'', PyStr ''skipped''),
                           (''message'', PyStr ''STP bridge is disabled''),
                           (''timestamp'', PyStr (utcnow w (n_utcnow w)))]
           \<and> w' = w\<lparr>n_utcnow := Suc (n_utcnow w)\<rparr>
           \<and> new_posts w w' = []
           \<and> field res ''status'' = Some (PyStr ''skipped'')"
  using assms
  by (simp add: forward_signal_def utcnow_isoformat_def new_posts_def field_def)

text \<open>The theorem at a disabled bridge and an endpoint that would answer 200: nothing is
  posted.\<close>

theorem forward_signal_disabled_witness:
  "\<not> enabled (example_bridge 3 False)
   \<and> (\<exists>res w'. forward_signal (example_bridge 3 False) [(''signal_id'', PyStr ''s1'')]
                   (example_world (every_call (Inr (json_response 200)))) = (Inr res, w')
           \<and> res = PyDict [(''status'', PyStr ''skipped''),
                           (''message'', PyStr ''STP bridge is disabled''),
                           (''timestamp'', PyStr ''t0'')]
           \<and> new_posts (example_world (every_call (Inr (json_response 200)))) w' = []
           \<and> posts w' = [])"
proof -
  have h: "\<not> enabled (example_bridge 3 False)"
    by (simp add: ex_defs)
  from forward_signal_disabled [OF h, of "[(''signal_id'', PyStr ''s1'')]"
         "example_world (every_call (Inr (json_response 200)))"]
  obtain res w' where
    r: "forward_signal (example_bridge 3 False) [(''signal_id'', PyStr ''s1'')]
                   (example_world (every_call (Inr (json_response 200)))) = (Inr res, w')"
       "res = PyDict [(''status'', PyStr ''skipped''),
                           (''message'', PyStr ''STP bridge is disabled''),
                           (''timestamp'', PyStr (utcnow (example_world (every_call (Inr (json_response 200))))
                               (n_utcnow (example_world (every_call (Inr (json_response 200)))))))]"
       "w' = (example_world (every_call (Inr (json_response 200))))
               \<lparr>n_utcnow := Suc (n_utcnow (example_world (every_call (Inr (json_response 200)))))\<rparr>"
       "new_posts (example_world (every_call (Inr (json_response 200)))) w' = []"
    by blast
  have "res = PyDict [(''status'', PyStr ''skipped''),
                           (''message'', PyStr ''STP bridge is disabled''),
                           (''timestamp'', PyStr ''t0'')]"
    unfolding r(2) by (simp add: example_world_def str_nat.simps)
  moreover have "posts w' = []"
    unfolding r(3) by (simp add: example_world_def)
  ultimately show ?thesis using h r(1) r(4) by blast
qed

text \<open>
  Claim C7. \<^verbatim>\<open>health_check\<close> always returns (it does not raise) and makes exactly one
  call of \<^verbatim>\<open>requests.post\<close>. The status is \<open>healthy\<close> if and only if the call returned a
  response with status code 200 or 201, and \<open>unhealthy\<close> otherwise. When the call raises,
  the result holds the error detail and has no status code and no response time.
\<close>

theorem health_check_single_post:
  "\<exists>res w'. health_check self w = (Inr res, w')
      \<and> length (new_posts w w') = 1
      \<and> (field res ''status'' = Some (PyStr ''healthy'') \<longleftrightarrow>
           (\<exists>r. post_result w (length (posts w)) = Inr r \<and> status_code r \<in> {200, 201}))
      \<and> (field res ''status'' = Some (PyStr ''unhealthy'') \<longleftrightarrow>
           \<not> (\<exists>r. post_result w (length (posts w)) = Inr r \<and> status_code r \<in> {200, 201}))
      \<and> (\<forall>e. post_result w (length (posts w)) = Inl e \<longrightarrow>
             field res ''status'' = Some (PyStr ''unhealthy'')
           \<and> field res ''error'' = Some (PyStr (str_exn w e))
           \<and> field res ''status_code'' = None
           \<and> field res ''response_time'' = None)
      \<and> (\<forall>r. post_result w (length (posts w)) = Inr r \<longrightarrow>
             field res ''status_code'' = Some (PyInt (status_code r))
           \<and> field res ''response_time'' = Some (PyFloat (elapsed r))
           \<and> field res ''error'' = None)"
proof (cases "post_result w (length (posts w))")
  case (Inl e)
  then show ?thesis
    by (simp add: health_check_def uuid4_str_def utcnow_isoformat_def requests_post_def
          new_posts_def field_def str_exn_def split: exn.splits)
next
  case (Inr r)
  then show ?thesis
    by (simp add: health_check_def uuid4_str_def utcnow_isoformat_def requests_post_def
          new_posts_def field_def)
qed

text \<open>The theorem at an endpoint that refuses the connection.\<close>

theorem health_check_single_post_witness:
  "post_result (example_world (every_call (Inl connection_error)))
     (length (posts (example_world (every_call (Inl connection_error)))))
     = Inl connection_error
   \<and> (\<exists>res w'. health_check (STPBridge None)
                   (example_world (every_call (Inl connection_error))) = (Inr res, w')
         \<and> length (new_posts (example_world (every_call (Inl connection_error))) w') = 1
         \<and> field res ''status'' = Some (PyStr ''unhealthy'')
         \<and> field res ''error'' = Some (PyStr ''Connection refused'')
         \<and> field res ''status_code'' = None
         \<and> field res ''response_time'' = None)"
proof -
  let ?w = "example_world (every_call (Inl connection_error))"
  have h: "post_result ?w (length (posts ?w)) = Inl connection_error"
    by (simp add: ex_defs)
  have s: "str_exn ?w connection_error = ''Connection refused''"
    by (simp add: str_exn_def connection_error_def)
  from health_check_single_post [of "STPBridge None" ?w] h s show ?thesis
    by metis
qed

text \<open>
  Claim C8, amended. Every result of \<^verbatim>\<open>forward_signal\<close> with status \<open>success\<close> or
  \<open>error\<close>, which is every result of an enabled bridge, has a field \<open>signal_id\<close>: the
  \<open>signal_id\<close> of the signal when it has one, else a fresh UUID. The result of a
  disabled bridge has status \<open>skipped\<close> and no field \<open>signal_id\<close>: the source returns it
  before the signal is looked at.
\<close>

theorem forward_signal_signal_id:
  "\<exists>res w'. forward_signal self signal w = (Inr res, w')
     \<and> (if enabled self
         then field res ''status'' \<in> {Some (PyStr ''success''), Some (PyStr ''error'')}
            \<and> field res ''signal_id''
                = Some (case map_of signal ''signal_id'' of
                          Some v \<Rightarrow> v
                        | None \<Rightarrow> PyStr (uuid4 w (n_uuid4 w)))
         else field res ''status'' = Some (PyStr ''skipped'')
            \<and> field res ''signal_id'' = None)"
proof (cases "enabled self")
  case True
  then show ?thesis
    by (auto simp: forward_signal_enabled field_def dict_get_def split: prod.splits sum.splits)
next
  case False
  then show ?thesis
    by (simp add: forward_signal_def utcnow_isoformat_def field_def)
qed

text \<open>The claim as stated fails for status \<open>skipped\<close>: the result of a disabled bridge
  for a signal that has a \<open>signal_id\<close> holds the status, a message and the timestamp only.\<close>

theorem forward_signal_signal_id_counterexample:
  "fst (forward_signal (example_bridge 3 False) [(''signal_id'', PyStr ''s1'')]
          (example_world (every_call (Inr (json_response 200)))))
     = Inr (PyDict [(''status'', PyStr ''skipped''),
                    (''message'', PyStr ''STP bridge is disabled''),
                    (''timestamp'', PyStr ''t0'')])
   \<and> field (PyDict [(''status'', PyStr ''skipped''),
                    (''message'', PyStr ''STP bridge is disabled''),
                    (''timestamp'', PyStr ''t0'')]) ''signal_id'' = (None :: rat py option)"
  by (simp add: ex_defs forward_signal_def utcnow_isoformat_def field_def str_nat.simps)

text \<open>
  Claim C9. A bridge with \<open>retry_attempts \<le> 0\<close>, enabled: \<^verbatim>\<open>forward_signal\<close> makes no
  call of \<^verbatim>\<open>requests.post\<close> and returns a result with status \<open>error\<close> whose error
  detail is \<open>Unknown error\<close>, the \<^verbatim>\<open>str\<close> of the exception that \<^verbatim>\<open>_send_with_retry\<close>
  is initialised with and raises when the loop body never runs.
\<close>

theorem forward_signal_no_attempts:
  assumes "enabled self" and "retry_attempts self \<le> 0"
  shows "\<exists>res w'. forward_signal self signal w = (Inr res, w')
           \<and> new_posts w w' = []
           \<and> field res ''status'' = Some (PyStr ''error'')
           \<and> field res ''error'' = Some (PyStr ''Unknown error'')"
  using assms
  by (simp add: forward_signal_enabled send_with_retry_def new_posts_def field_def str_exn_def)

text \<open>The theorem at \<open>retry_attempts = 0\<close> and an endpoint that would answer 200.\<close>

theorem forward_signal_no_attempts_witness:
  "enabled (example_bridge 0 True) \<and> retry_attempts (example_bridge 0 True) \<le> 0
   \<and> (\<exists>res w'. forward_signal (example_bridge 0 True) []
                   (example_world (every_call (Inr (json_response 200)))) = (Inr res, w')
           \<and> new_posts (example_world (every_call (Inr (json_response 200)))) w' = []
           \<and> field res ''status'' = Some (PyStr ''error'')
           \<and> field res ''error'' = Some (PyStr ''Unknown error''))"
proof -
  have h1: "enabled (example_bridge 0 True)"
    by (simp add: example_bridge_def STPBridge_def config_get_def)
  have h2: "retry_attempts (example_bridge 0 True) \<le> 0"
    by (simp add: example_bridge_def STPBridge_def config_get_def)
  from h1 h2 forward_signal_no_attempts [OF h1 h2] show ?thesis
    by blast
qed

text \<open>
  Claim C10. In the retry loop, an attempt whose response has a body that is not empty
  and not JSON is a failed attempt, whatever its status code (200 and 201 included):
  the loop goes on to the remaining attempts with the JSON error as \<^verbatim>\<open>last_exception\<close>,
  not a status-code error, and raises that JSON error when no attempt remains.
\<close>

theorem send_loop_invalid_json:
  assumes "post_result w (length (posts w)) = Inr r"
    and "content r \<noteq> []" and "json r = Inl e"
  shows "send_loop self p (attempt # rest) last_exception w =
           send_loop self p rest e
             (w\<lparr>posts := posts w @ [\<lparr>p_url = insightflow_endpoint self, p_json = p,
                                       p_timeout = timeout self\<rparr>]\<rparr>)
         \<and> send_loop self p [attempt] last_exception w =
             (Inl e, w\<lparr>posts := posts w @ [\<lparr>p_url = insightflow_endpoint self, p_json = p,
                                              p_timeout = timeout self\<rparr>]\<rparr>)"
proof -
  have "attempt_failure (post_result w (length (posts w))) = Some e"
    using assms by (simp add: attempt_failure_def body_json_def)
  then have step: "\<And>rest. send_loop self p (attempt # rest) last_exception w =
           send_loop self p rest e
             (w\<lparr>posts := posts w @ [\<lparr>p_url = insightflow_endpoint self, p_json = p,
                                       p_timeout = timeout self\<rparr>]\<rparr>)"
    by (rule send_loop_step_fail)
  show ?thesis
    unfolding step by simp
qed

text \<open>The theorem at a single attempt whose response has status code 200 and the body
  \<open>oops\<close>: the loop raises the JSON error.\<close>

theorem send_loop_invalid_json_witness:
  "post_result (example_world (calls [Inr (garbled_response 200)] (Inr (json_response 200))))
     (length (posts (example_world
        (calls [Inr (garbled_response 200)] (Inr (json_response 200))))))
     = Inr (garbled_response 200)
   \<and> content (garbled_response 200) \<noteq> []
   \<and> json (garbled_response 200) = Inl (Error ''JSONDecodeError'' ''Expecting value'')
   \<and> status_code (garbled_response 200) = 200
   \<and> send_loop (example_bridge 1 True) (PyDict []) [0] (Exception ''Unknown error'')
        (example_world (calls [Inr (garbled_response 200)] (Inr (json_response 200))))
      = (Inl (Error ''JSONDecodeError'' ''Expecting value''),
         (example_world (calls [Inr (garbled_response 200)] (Inr (json_response 200))))
           \<lparr>posts := [\<lparr>p_url = ''http://localhost:8001/api/v1/insightflow/receive'',
                       p_json = PyDict [], p_timeout = 10\<rparr>]\<rparr>)"
proof -
  let ?w = "example_world (calls [Inr (garbled_response 200)] (Inr (json_response 200)))"
  let ?r = "garbled_response 200 :: rat response"
  have h1: "post_result ?w (length (posts ?w)) = Inr ?r" by (simp add: ex_defs)
  have h2: "content ?r \<noteq> []" by (simp add: ex_defs)
  have h3: "json ?r = Inl (Error ''JSONDecodeError'' ''Expecting value'')"
    by (simp add: ex_defs)
  have h4: "status_code ?r = 200" by (simp add: ex_defs)
  from send_loop_invalid_json [OF h1 h2 h3, of "example_bridge 1 True" "PyDict []" 0 "[]"
         "Exception ''Unknown error''"]
  have "send_loop (example_bridge 1 True) (PyDict []) [0] (Exception ''Unknown error'') ?w =
          (Inl (Error ''JSONDecodeError'' ''Expecting value''),
           ?w\<lparr>posts := posts ?w @ [\<lparr>p_url = insightflow_endpoint (example_bridge 1 True),
                                     p_json = PyDict [],
                                     p_timeout = timeout (example_bridge 1 True)\<rparr>]\<rparr>)"
    by blast
  moreover have "posts ?w = []" by (simp add: ex_defs)
  moreover have "insightflow_endpoint (example_bridge 1 True)
                   = ''http://localhost:8001/api/v1/insightflow/receive''"
    and "timeout (example_bridge 1 True) = 10"
    by (simp_all add: ex_defs)
  ultimately show ?thesis using h1 h2 h3 h4 by simp
qed

end
